theory Spec2Isabelle
  imports Main
begin

section \<open>Huawei modem manager: a shallow embedding of manager.py\<close>

text \<open>
  The module talks to three things outside itself: the wall clock
  (\<^verbatim>\<open>datetime.now()\<close>, \<^verbatim>\<open>time.sleep\<close>), the log file and the
  router (the telemetry property \<^verbatim>\<open>router.device.signal\<close> and the control calls
  of \<^verbatim>\<open>router.net\<close> and \<^verbatim>\<open>router.dataswitch\<close>). They are made explicit as a
  world that every function takes and returns, and an environment that says how the
  router answers and how long things take. Exceptions are values of a sum type.
  Two things are left out: the XML parser itself (a telemetry document is taken as the
  parsed root element, given by its children in document order), and failures of the
  HTTP transport (the control calls are taken to return).
\<close>

subsection \<open>Exceptions\<close>

text \<open>
  The exceptions the module raises. \<^verbatim>\<open>raise NotImplementedError\<close> has no message;
  \<open>UnboundLocalError\<close> carries the name of the local variable that was read before
  any assignment.
\<close>

datatype exn =
    RuntimeError string
  | NotImplementedError
  | UnboundLocalError string
  | Exception string

text \<open>The classes of the Python exception hierarchy that the module meets.\<close>

datatype py_class =
    BaseException_class
  | Exception_class
  | RuntimeError_class
  | NotImplementedError_class
  | NameError_class
  | UnboundLocalError_class

fun class_of :: "exn \<Rightarrow> py_class" where
  "class_of (RuntimeError m) = RuntimeError_class"
| "class_of NotImplementedError = NotImplementedError_class"
| "class_of (UnboundLocalError v) = UnboundLocalError_class"
| "class_of (Exception m) = Exception_class"

text \<open>
  The method resolution order of each class (\<^verbatim>\<open>C.__mro__\<close> without
  \<^verbatim>\<open>object\<close>), as the Python built-ins declare it.
\<close>

fun mro :: "py_class \<Rightarrow> py_class list" where
  "mro BaseException_class = [BaseException_class]"
| "mro Exception_class = [Exception_class, BaseException_class]"
| "mro RuntimeError_class = [RuntimeError_class, Exception_class, BaseException_class]"
| "mro NotImplementedError_class =
     [NotImplementedError_class, RuntimeError_class, Exception_class, BaseException_class]"
| "mro NameError_class = [NameError_class, Exception_class, BaseException_class]"
| "mro UnboundLocalError_class =
     [UnboundLocalError_class, NameError_class, Exception_class, BaseException_class]"

definition issubclass :: "py_class \<Rightarrow> py_class \<Rightarrow> bool" where
  "issubclass c d = (d \<in> set (mro c))"

text \<open>\<^verbatim>\<open>except C:\<close> catches \<open>e\<close> when the class of \<open>e\<close> is \<open>C\<close> or derives from it.\<close>

definition caught_by :: "exn \<Rightarrow> py_class \<Rightarrow> bool" where
  "caught_by e c = issubclass (class_of e) c"

text \<open>\<^verbatim>\<open>str(e)\<close>, as \<^verbatim>\<open>"%s" % e\<close> formats an exception.\<close>

fun str_exn :: "exn \<Rightarrow> string" where
  "str_exn (RuntimeError m) = m"
| "str_exn NotImplementedError = []"
| "str_exn (UnboundLocalError v) =
     ''local variable '' @ [CHR 0x27] @ v @ [CHR 0x27] @ '' referenced before assignment''"
| "str_exn (Exception m) = m"

subsection \<open>Formatting\<close>

text \<open>\<^verbatim>\<open>"%s" % n\<close> for an integer: its decimal digits, with a minus sign when negative.\<close>

function str_nat :: "nat \<Rightarrow> string" where
  "str_nat n =
     (if n < 10 then [''0123456789'' ! n]
      else str_nat (n div 10) @ [''0123456789'' ! (n mod 10)])"
  by pat_completeness auto
termination
  by (relation "measure id") auto

definition str_int :: "int \<Rightarrow> string" where
  "str_int i = (if i < 0 then ''-'' @ str_nat (nat (- i)) else str_nat (nat i))"

text \<open>\<^verbatim>\<open>"{}".format(x)\<close> for a value that is a string or \<^verbatim>\<open>None\<close>.\<close>

fun str_opt :: "string option \<Rightarrow> string" where
  "str_opt None = ''None''"
| "str_opt (Some s) = s"

subsection \<open>Module constants\<close>

definition router_name :: string where
  "router_name = ''default''"

definition upload_bands :: "string list" where
  "upload_bands = [''B28'']"

definition download_bands :: "string list" where
  "download_bands = [''B28'', ''B3'', ''B7'']"

definition connection_timeout :: int where
  "connection_timeout = 20"

subsection \<open>Telemetry documents\<close>

text \<open>
  A child of the root of the signal document: its tag and its text, which
  ElementTree gives as \<^verbatim>\<open>None\<close> for an element without content
  (\<^verbatim>\<open><band/>\<close> or \<^verbatim>\<open><band></band>\<close>).
\<close>

record element =
  tag :: string
  elem_text :: "string option"

type_synonym document = "element list"

subsection \<open>The router, the clock and the log\<close>

text \<open>The calls the module makes on the router.\<close>

datatype rci_call =
    ReadSignal
  | SetNetworkMode string
  | DataSwitchOff
  | DataSwitchOn
  | SetLteBand "string list"

text \<open>
  The world: the wall clock in microseconds, the state of the router (any type), the
  calls made on the router so far, oldest first, and the lines appended to the log, each
  with the time it was stamped with.
\<close>

record 'd world =
  clock :: int
  dev :: 'd
  calls :: "rci_call list"
  logs :: "(int \<times> string) list"

text \<open>
  The environment: the telemetry document a router in a given state returns at a given
  time, how a call changes the state of the router, the time that passes between one
  reading of the clock and the next effect (\<open>tick\<close>), and the time a call on the
  router takes (\<open>rtt\<close>), both in microseconds.
\<close>

record 'd env =
  signal :: "'d \<Rightarrow> int \<Rightarrow> document"
  react :: "rci_call \<Rightarrow> int \<Rightarrow> 'd \<Rightarrow> 'd"
  tick :: nat
  rtt :: nat

type_synonym ('a, 'd) result = "(exn + 'a) \<times> 'd world"

definition now :: "'d env \<Rightarrow> 'd world \<Rightarrow> int \<times> 'd world" where
  "now e w = (clock w, w\<lparr>clock := clock w + int (tick e)\<rparr>)"

definition sleep :: "int \<Rightarrow> 'd world \<Rightarrow> 'd world" where
  "sleep secs w = w\<lparr>clock := clock w + secs * 1000000\<rparr>"

definition rci :: "'d env \<Rightarrow> rci_call \<Rightarrow> 'd world \<Rightarrow> 'd world" where
  "rci e c w =
     w\<lparr>clock := clock w + int (rtt e),
       dev := react e c (clock w) (dev w),
       calls := calls w @ [c]\<rparr>"

text \<open>\<^verbatim>\<open>logger(msg)\<close>: stamps the message with the clock and appends it to the log.\<close>

definition logger :: "'d env \<Rightarrow> string \<Rightarrow> 'd world \<Rightarrow> 'd world" where
  "logger e msg w =
     (let (t, w1) = now e w in w1\<lparr>logs := logs w1 @ [(t, msg)]\<rparr>)"

subsection \<open>Corrective actions\<close>

definition toggle_data_off_on :: "'d env \<Rightarrow> 'd world \<Rightarrow> 'd world" where
  "toggle_data_off_on e w =
     (let w1 = logger e (router_name @ '': switching data off.'') w;
          w2 = rci e DataSwitchOff w1;
          w3 = logger e (router_name @ '': switching data on.'') w2
      in rci e DataSwitchOn w3)"

definition force_4g :: "'d env \<Rightarrow> 'd world \<Rightarrow> 'd world" where
  "force_4g e w =
     (let w1 = logger e (router_name @ '': setting mode to 4G'') w
      in rci e (SetNetworkMode ''4G'') w1)"

definition set_upload_bands :: "'d env \<Rightarrow> string list \<Rightarrow> 'd world \<Rightarrow> 'd world" where
  "set_upload_bands e bands w = rci e (SetLteBand bands) w"

subsection \<open>get_upload_band\<close>

text \<open>
  The loop over the children of the root: the first child tagged \<^verbatim>\<open>band\<close> decides;
  a document without one raises.
\<close>

fun band_of_children :: "element list \<Rightarrow> bool \<Rightarrow> exn + string option" where
  "band_of_children [] numerical = Inl (RuntimeError ''No band entry in device signal.'')"
| "band_of_children (child # rest) numerical =
     (if tag child = ''band'' then
        (case elem_text child of
           Some t \<Rightarrow> if numerical then Inr (Some t) else Inr (Some (''B'' @ t))
         | None \<Rightarrow> Inr None)
      else band_of_children rest numerical)"

definition get_upload_band :: "'d env \<Rightarrow> bool \<Rightarrow> 'd world \<Rightarrow> (string option, 'd) result" where
  "get_upload_band e numerical w =
     (band_of_children (signal e (dev w) (clock w)) numerical, rci e ReadSignal w)"

subsection \<open>wait_for_connection\<close>

text \<open>
  The local variable \<^verbatim>\<open>ul_band\<close> is unassigned (\<open>None\<close>) until the first poll
  returns; the \<^verbatim>\<open>return\<close> statement reads it. The deadline is an unbounded
  integer: the \<^verbatim>\<open>OverflowError\<close> of \<^verbatim>\<open>start + timedelta(seconds=timeout)\<close>
  for a timeout that takes the date out of the range of \<^verbatim>\<open>datetime\<close> (some
  two thousand years into the past) is left out.
\<close>

definition return_connected :: "string option option \<Rightarrow> 'd world \<Rightarrow> (bool, 'd) result" where
  "return_connected ul_band w =
     (case ul_band of
        None \<Rightarrow> (Inl (UnboundLocalError ''ul_band''), w)
      | Some b \<Rightarrow> (Inr (b \<noteq> None), w))"

function wait_loop ::
  "'d env \<Rightarrow> int \<Rightarrow> string option option \<Rightarrow> 'd world \<Rightarrow> (bool, 'd) result" where
  "wait_loop e end_t ul_band w =
     (let (t, w1) = now e w in
      if t > end_t then
        return_connected ul_band
          (logger e (router_name @ '' was unable to connect to an antenna.'') w1)
      else
        (case get_upload_band e False w1 of
           (Inl x, w2) \<Rightarrow> (Inl x, w2)
         | (Inr b, w2) \<Rightarrow>
             if b \<noteq> None then return_connected (Some b) w2
             else wait_loop e end_t (Some b) (sleep 1 w2)))"
  by pat_completeness auto
termination
  by (relation "measure (\<lambda>(e, end_t, ul_band, w). nat (end_t + 1 - clock w))")
     (auto simp: now_def get_upload_band_def rci_def sleep_def)

definition wait_for_connection :: "'d env \<Rightarrow> int \<Rightarrow> 'd world \<Rightarrow> (bool, 'd) result" where
  "wait_for_connection e timeout w =
     (if timeout > 120 then
        (Inl (RuntimeError (''Timeout value '' @ str_int timeout @ '' is too large.'')), w)
      else
        (let (start, w1) = now e w;
             end_t = start + timeout * 1000000
         in wait_loop e end_t None w1))"

subsection \<open>force_band_setting\<close>

text \<open>\<^verbatim>\<open>x in bands\<close> for a value that is a string or \<^verbatim>\<open>None\<close>.\<close>

definition band_in :: "string option \<Rightarrow> string list \<Rightarrow> bool" where
  "band_in b bands = (case b of None \<Rightarrow> False | Some s \<Rightarrow> s \<in> set bands)"

definition force_band_setting ::
  "'d env \<Rightarrow> string list \<Rightarrow> string list \<Rightarrow> 'd world \<Rightarrow> (bool, 'd) result" where
  "force_band_setting e ul_bands dl_bands w =
     (if length ul_bands > 1 then (Inl NotImplementedError, w)
      else
        (case wait_for_connection e connection_timeout w of
           (Inl x, w1) \<Rightarrow> (Inl x, w1)
         | (Inr c1, w1) \<Rightarrow>
             (let w2 =
                (if \<not> c1 then
                   toggle_data_off_on e (force_4g e
                     (logger e (''Router '' @ router_name @
                        '' is not connected yet. Forcing 4G and toggling antennas off/on.'') w1))
                 else w1)
              in
                (case wait_for_connection e connection_timeout w2 of
                   (Inl x, w3) \<Rightarrow> (Inl x, w3)
                 | (Inr c2, w3) \<Rightarrow>
                     if \<not> c2 then
                       (Inl (RuntimeError ''Could not acquire any antenna #1.''), w3)
                     else
                       (case get_upload_band e False w3 of
                          (Inl x, w4) \<Rightarrow> (Inl x, w4)
                        | (Inr b, w4) \<Rightarrow>
                            if band_in b ul_bands then (Inr True, w4)
                            else
                              (let w5 = set_upload_bands e ul_bands w4;
                                   w6 = set_upload_bands e dl_bands w5
                               in
                                 (case wait_for_connection e connection_timeout w6 of
                                    (Inl x, w7) \<Rightarrow> (Inl x, w7)
                                  | (Inr c3, w7) \<Rightarrow>
                                      if \<not> c3 then
                                        (Inl (RuntimeError
                                           ''Could not acquire any antenna #2.''), w7)
                                      else
                                        (case get_upload_band e False w7 of
                                           (Inl x, w8) \<Rightarrow> (Inl x, w8)
                                         | (Inr b2, w8) \<Rightarrow>
                                             (Inr (band_in b2 ul_bands), w8)))))))))"

text \<open>
  Lines 148 to 153 of \<^verbatim>\<open>force_band_setting\<close> on their own: the connectivity
  test, the corrective unit when it fails, and the second test. Used to name the world
  in which the attached band is compared with the upload bands.
\<close>

definition acquire_antenna :: "'d env \<Rightarrow> 'd world \<Rightarrow> (unit, 'd) result" where
  "acquire_antenna e w =
     (case wait_for_connection e connection_timeout w of
        (Inl x, w1) \<Rightarrow> (Inl x, w1)
      | (Inr c1, w1) \<Rightarrow>
          (let w2 =
             (if \<not> c1 then
                toggle_data_off_on e (force_4g e
                  (logger e (''Router '' @ router_name @
                     '' is not connected yet. Forcing 4G and toggling antennas off/on.'') w1))
              else w1)
           in
             (case wait_for_connection e connection_timeout w2 of
                (Inl x, w3) \<Rightarrow> (Inl x, w3)
              | (Inr c2, w3) \<Rightarrow>
                  if \<not> c2 then
                    (Inl (RuntimeError ''Could not acquire any antenna #1.''), w3)
                  else (Inr (), w3))))"

text \<open>The calls on the router other than telemetry reads.\<close>

definition control_calls :: "rci_call list \<Rightarrow> rci_call list" where
  "control_calls cs = filter (\<lambda>c. c \<noteq> ReadSignal) cs"

subsection \<open>The retry loop of main\<close>

text \<open>
  The two handlers of the \<^verbatim>\<open>try\<close> statement, in the order Python tries them:
  \<^verbatim>\<open>except RuntimeError\<close>, then \<^verbatim>\<open>except Exception as e\<close>. Every exception of the
  model derives from \<^verbatim>\<open>Exception\<close>, so the second handler takes what the first
  does not.
\<close>

definition handle_failure :: "'d env \<Rightarrow> exn \<Rightarrow> 'd world \<Rightarrow> 'd world" where
  "handle_failure e x w =
     (if caught_by x RuntimeError_class then
        logger e (''Router '' @ router_name @
          '': Attempt to force bands failed: no antenna signal. '' @
          ''Consider setting LTE bands to auto in the web interface'') w
      else logger e (str_exn x @ '', retrying...'') w)"

text \<open>The body of the \<^verbatim>\<open>try\<close> statement with its handlers: one enforcement attempt.\<close>

definition attempt :: "'d env \<Rightarrow> 'd world \<Rightarrow> 'd world" where
  "attempt e w =
     (case force_band_setting e upload_bands download_bands w of
        (Inl x, w1) \<Rightarrow> handle_failure e x w1
      | (Inr ok, w1) \<Rightarrow>
          if \<not> ok then
            handle_failure e
              (Exception (''Router '' @ router_name @ '': Forcing bands failed.'')) w1
          else w1)"

text \<open>
  The \<^verbatim>\<open>while\<close> loop of \<^verbatim>\<open>main\<close> (lines 228 to 236). It may run forever, which
  is the value \<open>None\<close>. The loop condition and the argument of the first
  \<^verbatim>\<open>logger\<close> call each read the telemetry, outside the \<^verbatim>\<open>try\<close> statement.
\<close>

partial_function (option) main_loop :: "'d env \<Rightarrow> 'd world \<Rightarrow> (unit, 'd) result option" where
  "main_loop e w =
     (case get_upload_band e False w of
        (Inl x, w1) \<Rightarrow> Some (Inl x, w1)
      | (Inr b, w1) \<Rightarrow>
          if b \<noteq> Some (upload_bands ! 0) then
            (case get_upload_band e False w1 of
               (Inl x, w2) \<Rightarrow> Some (Inl x, w2)
             | (Inr b', w2) \<Rightarrow>
                 main_loop e
                   (attempt e
                     (logger e (''Router '' @ router_name @ '' is using '' @ str_opt b' @
                        '' as upload band. Forcing '' @ upload_bands ! 0 @ '' instead.'') w2)))
          else Some (Inr (), w1))"

subsection \<open>Stripping the band prefix\<close>

text \<open>
  Modelled from the spec: the source only formats a band (\<^verbatim>\<open>"B%s" % child.text\<close>);
  it has no function that strips the prefix again. The spec's \<^verbatim>\<open>parse\<close> removes the
  fixed prefix \<^verbatim>\<open>B\<close> from the textual form.
\<close>

fun parse_band :: "string \<Rightarrow> string option" where
  "parse_band [] = None"
| "parse_band (c # n) = (if c = CHR ''B'' then Some n else None)"

subsection \<open>What a caller sees of a failure\<close>

text \<open>
  The class of the exception a call ended with, if it ended with one: what an
  \<^verbatim>\<open>except\<close> clause of the caller dispatches on.
\<close>

definition error_kind :: "('a, 'd) result \<Rightarrow> py_class option" where
  "error_kind r = (case fst r of Inl x \<Rightarrow> Some (class_of x) | Inr v \<Rightarrow> None)"

subsection \<open>Example routers\<close>

text \<open>A signal document with some radio readings and a band entry with the given text.\<close>

definition band_doc :: "string option \<Rightarrow> document" where
  "band_doc b =
     [\<lparr>tag = ''rsrq'', elem_text = Some ''-9dB''\<rparr>,
      \<lparr>tag = ''rsrp'', elem_text = Some ''-95dBm''\<rparr>,
      \<lparr>tag = ''band'', elem_text = b\<rparr>]"

text \<open>A router that always returns the same document, whatever it is told.\<close>

definition static_router :: "document \<Rightarrow> unit env" where
  "static_router doc =
     \<lparr>signal = (\<lambda>d t. doc), react = (\<lambda>c t d. d), tick = 1, rtt = 1000\<rparr>"

text \<open>
  A router whose state is the band it is attached to, and that attaches to the first
  band of the list it is given.
\<close>

definition obedient_router :: "string option env" where
  "obedient_router =
     \<lparr>signal = (\<lambda>d t. band_doc d),
       react = (\<lambda>c t d. case c of SetLteBand (b # bs) \<Rightarrow> Some (drop 1 b) | _ \<Rightarrow> d),
       tick = 1, rtt = 1000\<rparr>"

definition world0 :: "'d \<Rightarrow> 'd world" where
  "world0 d = \<lparr>clock = 0, dev = d, calls = [], logs = []\<rparr>"

section \<open>Basic facts\<close>

declare wait_loop.simps [simp del]

lemma now_simps [simp]:
  "fst (now e w) = clock w"
  "clock (snd (now e w)) = clock w + int (tick e)"
  "calls (snd (now e w)) = calls w"
  "dev (snd (now e w)) = dev w"
  "logs (snd (now e w)) = logs w"
  by (simp_all add: now_def)

lemma sleep_simps [simp]:
  "clock (sleep s w) = clock w + s * 1000000"
  "calls (sleep s w) = calls w"
  "dev (sleep s w) = dev w"
  "logs (sleep s w) = logs w"
  by (simp_all add: sleep_def)

lemma rci_simps [simp]:
  "clock (rci e c w) = clock w + int (rtt e)"
  "calls (rci e c w) = calls w @ [c]"
  "dev (rci e c w) = react e c (clock w) (dev w)"
  "logs (rci e c w) = logs w"
  by (simp_all add: rci_def)

lemma logger_simps [simp]:
  "clock (logger e m w) = clock w + int (tick e)"
  "calls (logger e m w) = calls w"
  "dev (logger e m w) = dev w"
  "logs (logger e m w) = logs w @ [(clock w, m)]"
  by (simp_all add: logger_def now_def)

lemma get_upload_band_simps [simp]:
  "fst (get_upload_band e n w) = band_of_children (signal e (dev w) (clock w)) n"
  "snd (get_upload_band e n w) = rci e ReadSignal w"
  by (simp_all add: get_upload_band_def)

subsection \<open>The band entry of a document\<close>

lemma band_of_children_find:
  "band_of_children doc numerical =
     (case find (\<lambda>c. tag c = ''band'') doc of
        None \<Rightarrow> Inl (RuntimeError ''No band entry in device signal.'')
      | Some c \<Rightarrow>
          (case elem_text c of
             None \<Rightarrow> Inr None
           | Some t \<Rightarrow> Inr (Some (if numerical then t else ''B'' @ t))))"
  by (induction doc) (auto split: option.splits)

lemma band_of_children_Inl:
  "band_of_children doc numerical = Inl x \<Longrightarrow> x = RuntimeError ''No band entry in device signal.''"
  by (simp add: band_of_children_find split: option.splits)

subsection \<open>The polling loop\<close>

text \<open>One round of the loop: the deadline check, then the poll and its outcome.\<close>

lemma wait_loop_unfold:
  "wait_loop e end_t ul w =
     (if clock w > end_t then
        return_connected ul
          (logger e (router_name @ '' was unable to connect to an antenna.'') (snd (now e w)))
      else
        (case band_of_children (signal e (dev w) (clock w + int (tick e))) False of
           Inl x \<Rightarrow> (Inl x, rci e ReadSignal (snd (now e w)))
         | Inr b \<Rightarrow>
             if b \<noteq> None then (Inr True, rci e ReadSignal (snd (now e w)))
             else wait_loop e end_t (Some None) (sleep 1 (rci e ReadSignal (snd (now e w))))))"
  by (subst wait_loop.simps)
     (auto simp: now_def get_upload_band_def return_connected_def split: sum.splits)

text \<open>
  Induction along the loop: the clock moves on by at least a second per round, so the
  distance to the deadline shrinks.
\<close>

lemma wait_loop_induct [consumes 0, case_names round]:
  assumes round: "\<And>ul w.
    (\<And>ul'. clock w \<le> end_t \<Longrightarrow> P ul' (sleep 1 (rci e ReadSignal (snd (now e w))))) \<Longrightarrow> P ul w"
  shows "P ul w"
proof (induction "nat (end_t + 1 - clock w)" arbitrary: ul w rule: less_induct)
  case less
  show ?case
  proof (rule round)
    fix ul'
    assume "clock w \<le> end_t"
    then show "P ul' (sleep 1 (rci e ReadSignal (snd (now e w))))"
      by (intro less) simp
  qed
qed

lemma wait_loop_calls:
  "wait_loop e end_t ul w = (r, w') \<Longrightarrow> \<exists>n. calls w' = calls w @ replicate n ReadSignal"
proof (induction ul w rule: wait_loop_induct[where e=e and end_t=end_t])
  case (round ul w)
  show ?case
  proof (cases "clock w > end_t")
    case True
    with round.prems have "calls w' = calls w"
      by (subst (asm) wait_loop_unfold) (auto simp: return_connected_def split: option.splits)
    then show ?thesis by (intro exI[of _ 0]) simp
  next
    case False
    show ?thesis
    proof (cases "band_of_children (signal e (dev w) (clock w + int (tick e))) False")
      case (Inl x)
      with False round.prems have "calls w' = calls w @ [ReadSignal]"
        by (subst (asm) wait_loop_unfold) auto
      then show ?thesis by (intro exI[of _ 1]) simp
    next
      case (Inr b)
      show ?thesis
      proof (cases b)
        case (Some s)
        with Inr False round.prems have "calls w' = calls w @ [ReadSignal]"
          by (subst (asm) wait_loop_unfold) auto
        then show ?thesis by (intro exI[of _ 1]) simp
      next
        case None
        with Inr False round.prems
        have "wait_loop e end_t (Some None) (sleep 1 (rci e ReadSignal (snd (now e w)))) = (r, w')"
          by (subst (asm) wait_loop_unfold) auto
        with False round.IH[of "Some None"]
        obtain n where "calls w' = calls w @ ReadSignal # replicate n ReadSignal" by auto
        then show ?thesis by (intro exI[of _ "Suc n"]) simp
      qed
    qed
  qed
qed

lemma wait_loop_errors:
  "wait_loop e end_t ul w = (Inl x, w') \<Longrightarrow>
     x = RuntimeError ''No band entry in device signal.'' \<and> calls w' \<noteq> calls w
   \<or> x = UnboundLocalError ''ul_band'' \<and> ul = None \<and> end_t < clock w \<and> calls w' = calls w"
proof (induction ul w rule: wait_loop_induct[where e=e and end_t=end_t])
  case (round ul w)
  show ?case
  proof (cases "clock w > end_t")
    case True
    with round.prems show ?thesis
      by (subst (asm) wait_loop_unfold) (auto simp: return_connected_def split: option.splits)
  next
    case False
    show ?thesis
    proof (cases "band_of_children (signal e (dev w) (clock w + int (tick e))) False")
      case (Inl y)
      then have "y = RuntimeError ''No band entry in device signal.''"
        by (rule band_of_children_Inl)
      with Inl False round.prems show ?thesis
        by (subst (asm) wait_loop_unfold) auto
    next
      case (Inr b)
      show ?thesis
      proof (cases b)
        case (Some s)
        with Inr False round.prems show ?thesis
          by (subst (asm) wait_loop_unfold) auto
      next
        case None
        with Inr False round.prems
        have rec: "wait_loop e end_t (Some None) (sleep 1 (rci e ReadSignal (snd (now e w))))
                   = (Inl x, w')"
          by (subst (asm) wait_loop_unfold) auto
        from wait_loop_calls[OF rec]
        obtain n where "calls w' = calls w @ ReadSignal # replicate n ReadSignal"
          by auto
        moreover from False round.IH[OF _ rec]
        have "x = RuntimeError ''No band entry in device signal.''"
          by auto
        ultimately show ?thesis by simp
      qed
    qed
  qed
qed

lemma wait_loop_never_attached:
  assumes none: "\<And>d t. band_of_children (signal e d t) False = Inr None"
  shows "ul = Some None \<or> (ul = None \<and> clock w \<le> end_t) \<Longrightarrow>
         fst (wait_loop e end_t ul w) = Inr False"
proof (induction ul w rule: wait_loop_induct[where e=e and end_t=end_t])
  case (round ul w)
  show ?case
  proof (cases "clock w > end_t")
    case True
    with round.prems show ?thesis
      by (subst wait_loop_unfold) (auto simp: return_connected_def)
  next
    case False
    then have "wait_loop e end_t ul w =
               wait_loop e end_t (Some None) (sleep 1 (rci e ReadSignal (snd (now e w))))"
      by (subst wait_loop_unfold) (simp add: none)
    with False round.IH[of "Some None"] show ?thesis by simp
  qed
qed

lemma wait_loop_attached:
  assumes "clock w \<le> end_t"
    and "band_of_children (signal e (dev w) (clock w + int (tick e))) False = Inr (Some b)"
  shows "wait_loop e end_t ul w = (Inr True, rci e ReadSignal (snd (now e w)))"
  using assms by (subst wait_loop_unfold) simp

lemma wait_for_connection_unfold:
  "wait_for_connection e timeout w =
     (if timeout > 120 then
        (Inl (RuntimeError (''Timeout value '' @ str_int timeout @ '' is too large.'')), w)
      else wait_loop e (clock w + timeout * 1000000) None (snd (now e w)))"
  by (simp add: wait_for_connection_def now_def)

text \<open>
  C2. For every telemetry document, with the band entry being the first child of the root
  tagged band: a document without a band entry makes get_upload_band raise the
  RuntimeError "No band entry in device signal." (the spec's ParseError) instead of
  returning None; a band entry without text makes it return None; a band entry with a
  text makes it return the text, prefixed with B unless the numerical flag is set.
\<close>

theorem get_upload_band_cases:
  "(find (\<lambda>c. tag c = ''band'') (signal e (dev w) (clock w)) = None \<longrightarrow>
      fst (get_upload_band e numerical w) = Inl (RuntimeError ''No band entry in device signal.''))
   \<and> (\<forall>c. find (\<lambda>c. tag c = ''band'') (signal e (dev w) (clock w)) = Some c \<and>
           elem_text c = None \<longrightarrow>
      fst (get_upload_band e numerical w) = Inr None)
   \<and> (\<forall>c t. find (\<lambda>c. tag c = ''band'') (signal e (dev w) (clock w)) = Some c \<and>
           elem_text c = Some t \<longrightarrow>
      fst (get_upload_band e numerical w) = Inr (Some (if numerical then t else ''B'' @ t)))"
  by (simp add: band_of_children_find)

theorem get_upload_band_cases_witness:
  "fst (get_upload_band (static_router [\<lparr>tag = ''rsrq'', elem_text = Some ''-9dB''\<rparr>]) False (world0 ()))
     = Inl (RuntimeError ''No band entry in device signal.'')
   \<and> fst (get_upload_band (static_router (band_doc None)) False (world0 ())) = Inr None
   \<and> fst (get_upload_band (static_router (band_doc (Some ''28''))) False (world0 ()))
     = Inr (Some ''B28'')
   \<and> fst (get_upload_band (static_router (band_doc (Some ''28''))) True (world0 ()))
     = Inr (Some ''28'')"
  using get_upload_band_cases
          [of "static_router [\<lparr>tag = ''rsrq'', elem_text = Some ''-9dB''\<rparr>]" "world0 ()" False]
        get_upload_band_cases [of "static_router (band_doc None)" "world0 ()" False]
        get_upload_band_cases [of "static_router (band_doc (Some ''28''))" "world0 ()" False]
        get_upload_band_cases [of "static_router (band_doc (Some ''28''))" "world0 ()" True]
  by (simp add: static_router_def band_doc_def world0_def)

text \<open>
  C9. For every band token n reported by the router, the prefixed form is B followed by
  n, stripping the prefix from the prefixed form gives n back, and the numerical flag of
  get_upload_band only selects between the two forms: two documents give the same bare
  form exactly when they give the same prefixed form.
\<close>

theorem band_forms_interconvertible:
  "(\<forall>c n. find (\<lambda>c. tag c = ''band'') doc = Some c \<and> elem_text c = Some n \<longrightarrow>
      band_of_children doc True = Inr (Some n) \<and>
      band_of_children doc False = Inr (Some (''B'' @ n)) \<and>
      parse_band (''B'' @ n) = Some n)
   \<and> (band_of_children doc True = band_of_children doc' True \<longleftrightarrow>
      band_of_children doc False = band_of_children doc' False)"
  by (auto simp: band_of_children_find split: option.splits)

theorem band_forms_interconvertible_witness:
  "band_of_children (band_doc (Some ''28'')) True = Inr (Some ''28'')
   \<and> band_of_children (band_doc (Some ''28'')) False = Inr (Some ''B28'')
   \<and> parse_band ''B28'' = Some ''28''"
  using band_forms_interconvertible [of "band_doc (Some ''28'')" "band_doc (Some ''28'')"]
  by (simp add: band_doc_def)

text \<open>
  C5. For every upload band list with more than one element, force_band_setting raises
  NotImplementedError (the spec's UnsupportedConfiguration) at once: the world it
  returns is the one it was given, so no call on the router has been made.
\<close>

theorem force_band_setting_unsupported:
  "1 < length ul_bands \<Longrightarrow>
     force_band_setting e ul_bands dl_bands w = (Inl NotImplementedError, w)"
  by (simp add: force_band_setting_def)

theorem force_band_setting_unsupported_witness:
  "force_band_setting obedient_router [''B28'', ''B3''] download_bands (world0 (Some ''3''))
     = (Inl NotImplementedError, world0 (Some ''3''))"
  using force_band_setting_unsupported
          [of "[''B28'', ''B3'']" obedient_router download_bands "world0 (Some ''3'')"]
  by simp



subsection \<open>wait_for_connection\<close>

lemma wait_for_connection_calls:
  "wait_for_connection e timeout w = (r, w') \<Longrightarrow>
     \<exists>n. calls w' = calls w @ replicate n ReadSignal"
proof (cases "timeout > 120")
  case True
  assume "wait_for_connection e timeout w = (r, w')"
  with True have "calls w' = calls w" by (auto simp: wait_for_connection_unfold)
  then show ?thesis by (intro exI[of _ 0]) simp
next
  case False
  assume "wait_for_connection e timeout w = (r, w')"
  with False have "wait_loop e (clock w + timeout * 1000000) None (snd (now e w)) = (r, w')"
    by (simp add: wait_for_connection_unfold)
  from wait_loop_calls[OF this] show ?thesis by simp
qed






lemma wait_for_connection_never_attached:
  assumes "\<And>d t. band_of_children (signal e d t) False = Inr None"
    and "timeout \<le> 120" and "int (tick e) \<le> timeout * 1000000"
  shows "fst (wait_for_connection e timeout w) = Inr False"
  using assms wait_loop_never_attached[of e None "snd (now e w)" "clock w + timeout * 1000000"]
  by (simp add: wait_for_connection_unfold)

lemma wait_for_connection_attached:
  assumes "timeout \<le> 120" and "int (tick e) \<le> timeout * 1000000"
    and "band_of_children (signal e (dev w) (clock w + 2 * int (tick e))) False = Inr (Some b)"
  shows "wait_for_connection e timeout w =
           (Inr True, rci e ReadSignal (snd (now e (snd (now e w)))))"
proof -
  have le: "clock (snd (now e w)) \<le> clock w + timeout * 1000000"
    using assms(2) by simp
  have "band_of_children
          (signal e (dev (snd (now e w))) (clock (snd (now e w)) + int (tick e))) False
        = Inr (Some b)"
    using assms(3) by (simp add: algebra_simps)
  from wait_loop_attached[OF le this] assms(1) show ?thesis
    by (simp add: wait_for_connection_unfold)
qed

subsection \<open>The calls of the corrective actions\<close>

lemma force_4g_calls [simp]:
  "calls (force_4g e w) = calls w @ [SetNetworkMode ''4G'']"
  by (simp add: force_4g_def)

lemma toggle_data_off_on_calls [simp]:
  "calls (toggle_data_off_on e w) = calls w @ [DataSwitchOff, DataSwitchOn]"
  by (simp add: toggle_data_off_on_def)

lemma set_upload_bands_calls [simp]:
  "calls (set_upload_bands e bands w) = calls w @ [SetLteBand bands]"
  by (simp add: set_upload_bands_def)

lemma control_calls_simps [simp]:
  "control_calls [] = []"
  "control_calls (cs @ cs') = control_calls cs @ control_calls cs'"
  "control_calls (replicate n ReadSignal) = []"
  "control_calls (ReadSignal # cs) = control_calls cs"
  "c \<noteq> ReadSignal \<Longrightarrow> control_calls (c # cs) = c # control_calls cs"
  by (simp_all add: control_calls_def)

subsection \<open>force_band_setting in two parts\<close>

lemma force_band_setting_split:
  "force_band_setting e ul_bands dl_bands w =
     (if length ul_bands > 1 then (Inl NotImplementedError, w)
      else
        (case acquire_antenna e w of
           (Inl x, w3) \<Rightarrow> (Inl x, w3)
         | (Inr u, w3) \<Rightarrow>
             (case get_upload_band e False w3 of
                (Inl x, w4) \<Rightarrow> (Inl x, w4)
              | (Inr b, w4) \<Rightarrow>
                  if band_in b ul_bands then (Inr True, w4)
                  else
                    (case wait_for_connection e connection_timeout
                            (set_upload_bands e dl_bands (set_upload_bands e ul_bands w4)) of
                       (Inl x, w7) \<Rightarrow> (Inl x, w7)
                     | (Inr c3, w7) \<Rightarrow>
                         if \<not> c3 then
                           (Inl (RuntimeError ''Could not acquire any antenna #2.''), w7)
                         else
                           (case get_upload_band e False w7 of
                              (Inl x, w8) \<Rightarrow> (Inl x, w8)
                            | (Inr b2, w8) \<Rightarrow> (Inr (band_in b2 ul_bands), w8))))))"
  by (simp add: force_band_setting_def acquire_antenna_def Let_def
           split: prod.splits sum.splits)

lemma acquire_antenna_never_attached:
  assumes none: "\<And>d t. band_of_children (signal e d t) False = Inr None"
    and tick: "tick e < 1000000"
  shows "\<exists>w' cs. acquire_antenna e w =
            (Inl (RuntimeError ''Could not acquire any antenna #1.''), w')
          \<and> calls w' = calls w @ cs
          \<and> control_calls cs = [SetNetworkMode ''4G'', DataSwitchOff, DataSwitchOn]"
proof -
  let ?fix = "\<lambda>w1. toggle_data_off_on e (force_4g e
                  (logger e (''Router '' @ router_name @
                     '' is not connected yet. Forcing 4G and toggling antennas off/on.'') w1))"
  obtain r1 w1 where first: "wait_for_connection e connection_timeout w = (r1, w1)"
    by (cases "wait_for_connection e connection_timeout w")
  obtain r2 w3 where second: "wait_for_connection e connection_timeout (?fix w1) = (r2, w3)"
    by (cases "wait_for_connection e connection_timeout (?fix w1)")
  from tick have bound: "connection_timeout \<le> 120" "int (tick e) \<le> connection_timeout * 1000000"
    by (simp_all add: connection_timeout_def)
  from wait_for_connection_never_attached[OF none bound] first
  have r1: "r1 = Inr False" by (metis fst_conv)
  from wait_for_connection_never_attached[OF none bound] second
  have r2: "r2 = Inr False" by (metis fst_conv)
  from wait_for_connection_calls[OF first]
  obtain n1 where c1: "calls w1 = calls w @ replicate n1 ReadSignal" by blast
  from wait_for_connection_calls[OF second]
  obtain n2 where c2: "calls w3 = calls (?fix w1) @ replicate n2 ReadSignal" by blast
  have res: "acquire_antenna e w = (Inl (RuntimeError ''Could not acquire any antenna #1.''), w3)"
    using first second r1 r2 by (simp add: acquire_antenna_def)
  have "calls w3 = calls w @ (replicate n1 ReadSignal @
          [SetNetworkMode ''4G'', DataSwitchOff, DataSwitchOn] @ replicate n2 ReadSignal)"
    using c1 c2 by simp
  moreover have "control_calls (replicate n1 ReadSignal @
          [SetNetworkMode ''4G'', DataSwitchOff, DataSwitchOn] @ replicate n2 ReadSignal)
        = [SetNetworkMode ''4G'', DataSwitchOff, DataSwitchOn]"
    by simp
  ultimately show ?thesis using res by blast
qed

text \<open>
  C3. If the router never attaches (every telemetry document has a band entry without
  text), force_band_setting, called with at most one upload band, raises the
  RuntimeError "Could not acquire any antenna #1." (the spec's NoAntenna); apart from
  telemetry reads, the calls it has made on the router by then are exactly one network
  mode reset to 4G followed by one data switch off and one data switch on, and no band
  list has been set. Less than a second is taken to pass between two clock readings.
\<close>

theorem force_band_setting_no_antenna:
  assumes "length ul_bands \<le> 1"
    and "\<forall>d t. band_of_children (signal e d t) False = Inr None"
    and "tick e < 1000000"
  shows "\<exists>w' cs. force_band_setting e ul_bands dl_bands w =
            (Inl (RuntimeError ''Could not acquire any antenna #1.''), w')
          \<and> calls w' = calls w @ cs
          \<and> control_calls cs = [SetNetworkMode ''4G'', DataSwitchOff, DataSwitchOn]"
proof -
  from assms(2) have none: "\<And>d t. band_of_children (signal e d t) False = Inr None"
    by blast
  from acquire_antenna_never_attached[OF none assms(3), of w]
  obtain w' cs where "acquire_antenna e w =
            (Inl (RuntimeError ''Could not acquire any antenna #1.''), w')"
    and "calls w' = calls w @ cs"
    and "control_calls cs = [SetNetworkMode ''4G'', DataSwitchOff, DataSwitchOn]"
    by blast
  with assms(1) show ?thesis
    by (simp add: force_band_setting_split)
qed

theorem force_band_setting_no_antenna_witness:
  "\<exists>w' cs. force_band_setting (static_router (band_doc None)) upload_bands download_bands
              (world0 ()) =
            (Inl (RuntimeError ''Could not acquire any antenna #1.''), w')
          \<and> calls w' = calls (world0 ()) @ cs
          \<and> control_calls cs = [SetNetworkMode ''4G'', DataSwitchOff, DataSwitchOn]"
proof -
  have "length upload_bands \<le> 1"
    by (simp add: upload_bands_def)
  moreover have "\<forall>d t. band_of_children (signal (static_router (band_doc None)) d t) False
                    = Inr None"
    by (simp add: static_router_def band_doc_def)
  moreover have "tick (static_router (band_doc None)) < 1000000"
    by (simp add: static_router_def)
  ultimately show ?thesis
    by (rule force_band_setting_no_antenna)
qed

lemma acquire_antenna_attached:
  fixes e :: "'d env"
  assumes att: "\<And>d t. \<exists>b. band_of_children (signal e d t) False = Inr (Some b)"
    and tick: "tick e < 1000000"
  shows "\<exists>w3. acquire_antenna e w = (Inr (), w3) \<and> calls w3 = calls w @ [ReadSignal, ReadSignal]"
proof -
  from tick have bound: "connection_timeout \<le> 120" "int (tick e) \<le> connection_timeout * 1000000"
    by (simp_all add: connection_timeout_def)
  have wait: "wait_for_connection e connection_timeout v =
                (Inr True, rci e ReadSignal (snd (now e (snd (now e v)))))"
    for v :: "'d world"
  proof -
    from att obtain b
      where "band_of_children (signal e (dev v) (clock v + 2 * int (tick e))) False = Inr (Some b)"
      by blast
    from wait_for_connection_attached[OF bound this] show ?thesis .
  qed
  show ?thesis
    by (simp add: acquire_antenna_def wait)
qed

text \<open>
  C4, as the code has it. If the router is attached to a desired upload band (every
  telemetry document reports a band that is in the upload band list), force_band_setting,
  called with at most one upload band, returns True and makes three telemetry reads and
  no other call on the router: no band list is set, the network mode is not reset and
  the data switch is not touched. True is also what it returns after a reconfiguration
  that succeeded; there is no separate value for "already correct". Less than a second
  is taken to pass between two clock readings.
\<close>

theorem force_band_setting_already_correct:
  assumes "length ul_bands \<le> 1"
    and "\<forall>d t. \<exists>b. band_of_children (signal e d t) False = Inr (Some b) \<and> b \<in> set ul_bands"
    and "tick e < 1000000"
  shows "\<exists>w'. force_band_setting e ul_bands dl_bands w = (Inr True, w')
          \<and> calls w' = calls w @ [ReadSignal, ReadSignal, ReadSignal]"
proof -
  from assms(2) have att: "\<And>d t. \<exists>b. band_of_children (signal e d t) False = Inr (Some b)"
    by blast
  from acquire_antenna_attached[OF att assms(3), of w]
  obtain w3 where base: "acquire_antenna e w = (Inr (), w3)"
    and calls3: "calls w3 = calls w @ [ReadSignal, ReadSignal]"
    by blast
  from assms(2) obtain b
    where "band_of_children (signal e (dev w3) (clock w3)) False = Inr (Some b)"
      and "b \<in> set ul_bands"
    by blast
  then have "get_upload_band e False w3 = (Inr (Some b), rci e ReadSignal w3)"
    and "band_in (Some b) ul_bands"
    by (simp_all add: get_upload_band_def band_in_def)
  with assms(1) base have "force_band_setting e ul_bands dl_bands w = (Inr True, rci e ReadSignal w3)"
    by (simp add: force_band_setting_split)
  with calls3 show ?thesis by simp
qed

theorem force_band_setting_already_correct_witness:
  "\<exists>w'. force_band_setting (static_router (band_doc (Some ''28''))) upload_bands download_bands
            (world0 ()) = (Inr True, w')
        \<and> calls w' = calls (world0 ()) @ [ReadSignal, ReadSignal, ReadSignal]"
proof -
  have "length upload_bands \<le> 1"
    by (simp add: upload_bands_def)
  moreover have "\<forall>d t. \<exists>b. band_of_children
                    (signal (static_router (band_doc (Some ''28''))) d t) False = Inr (Some b)
                  \<and> b \<in> set upload_bands"
    by (simp add: static_router_def band_doc_def upload_bands_def)
  moreover have "tick (static_router (band_doc (Some ''28''))) < 1000000"
    by (simp add: static_router_def)
  ultimately show ?thesis
    by (rule force_band_setting_already_correct)
qed

text \<open>
  The claim C4 as stated fails: a call that finds the router on the desired band and a
  call that has to reconfigure it and succeeds return the same value, True.
\<close>

theorem already_correct_not_distinct_counterexample:
  "fst (force_band_setting obedient_router upload_bands download_bands (world0 (Some ''28'')))
     = Inr True
   \<and> control_calls (calls (snd (force_band_setting obedient_router upload_bands download_bands
        (world0 (Some ''28''))))) = []
   \<and> fst (force_band_setting obedient_router upload_bands download_bands (world0 (Some ''3'')))
     = Inr True
   \<and> control_calls (calls (snd (force_band_setting obedient_router upload_bands download_bands
        (world0 (Some ''3''))))) = [SetLteBand upload_bands, SetLteBand download_bands]"
  by (simp add: force_band_setting_def wait_for_connection_unfold wait_loop_unfold
      obedient_router_def world0_def band_doc_def connection_timeout_def upload_bands_def
      download_bands_def band_in_def now_def rci_def get_upload_band_def set_upload_bands_def
      control_calls_def)

lemma wait_for_connection_errors:
  assumes "timeout \<le> 120" and "wait_for_connection e timeout w = (Inl x, w')"
  shows "x = RuntimeError ''No band entry in device signal.'' \<or> x = UnboundLocalError ''ul_band''"
proof -
  from assms have "wait_loop e (clock w + timeout * 1000000) None (snd (now e w)) = (Inl x, w')"
    by (simp add: wait_for_connection_unfold)
  from wait_loop_errors[OF this] show ?thesis by blast
qed

text \<open>
  C6. When the router has an antenna (the connectivity tests of lines 148 to 153 passed)
  and the band it is attached to is not in the upload band list, force_band_setting,
  called with at most one upload band, sets the band list exactly twice, first to the
  upload bands and then to the download bands, and after that only reads telemetry
  (the connectivity test and the final query). It returns a value exactly when the
  connectivity test succeeded and the final query gave a band, and the value is True
  exactly when that band is in the upload band list; it raises the RuntimeError
  "Could not acquire any antenna #2." exactly when the connectivity test failed. So
  the mismatch outcome (the value False) differs from the NoAntenna outcome.
\<close>

theorem force_band_setting_reconfigures:
  assumes "length ul_bands \<le> 1"
    and "acquire_antenna e w = (Inr (), w3)"
    and "get_upload_band e False w3 = (Inr b, w4)"
    and "\<not> band_in b ul_bands"
    and "force_band_setting e ul_bands dl_bands w = (r, w')"
  shows "(\<exists>n. calls w' =
            calls w4 @ [SetLteBand ul_bands, SetLteBand dl_bands] @ replicate n ReadSignal)
       \<and> (\<forall>ok. r = Inr ok \<longleftrightarrow>
            (\<exists>w7 b2. wait_for_connection e connection_timeout
                        (set_upload_bands e dl_bands (set_upload_bands e ul_bands w4))
                      = (Inr True, w7)
                   \<and> get_upload_band e False w7 = (Inr b2, w')
                   \<and> ok = band_in b2 ul_bands))
       \<and> (r = Inl (RuntimeError ''Could not acquire any antenna #2.'') \<longleftrightarrow>
            (\<exists>w7. wait_for_connection e connection_timeout
                        (set_upload_bands e dl_bands (set_upload_bands e ul_bands w4))
                      = (Inr False, w7)))"
proof -
  let ?w6 = "set_upload_bands e dl_bands (set_upload_bands e ul_bands w4)"
  obtain c w7 where test: "wait_for_connection e connection_timeout ?w6 = (c, w7)"
    by (cases "wait_for_connection e connection_timeout ?w6")
  from wait_for_connection_calls[OF test]
  obtain n where calls7: "calls w7 = calls w4 @ [SetLteBand ul_bands, SetLteBand dl_bands]
                            @ replicate n ReadSignal"
    by auto
  have tail: "(r, w') =
     (case c of
        Inl x \<Rightarrow> (Inl x, w7)
      | Inr c3 \<Rightarrow>
          if \<not> c3 then (Inl (RuntimeError ''Could not acquire any antenna #2.''), w7)
          else
            (case get_upload_band e False w7 of
               (Inl x, w8) \<Rightarrow> (Inl x, w8)
             | (Inr b2, w8) \<Rightarrow> (Inr (band_in b2 ul_bands), w8)))"
    using assms test by (simp add: force_band_setting_split)
  show ?thesis
  proof (cases c)
    case (Inl x)
    with tail have r: "r = Inl x" and w': "w' = w7" by simp_all
    from test Inl wait_for_connection_errors[of connection_timeout e ?w6 x w7]
    have "x \<noteq> RuntimeError ''Could not acquire any antenna #2.''"
      by (auto simp: connection_timeout_def)
    with r w' calls7 test Inl show ?thesis by auto
  next
    case (Inr c3)
    show ?thesis
    proof (cases c3)
      case False
      with Inr tail have "r = Inl (RuntimeError ''Could not acquire any antenna #2.'')"
        and "w' = w7" by simp_all
      with calls7 test Inr False show ?thesis by auto
    next
      case True
      obtain q w8 where final: "get_upload_band e False w7 = (q, w8)"
        by (cases "get_upload_band e False w7")
      then have calls8: "calls w8 = calls w7 @ [ReadSignal]"
        by (auto simp: get_upload_band_def)
      show ?thesis
      proof (cases q)
        case (Inl x)
        with True Inr tail final have r: "r = Inl x" and w': "w' = w8" by simp_all
        from final Inl have "x = RuntimeError ''No band entry in device signal.''"
          by (auto simp: get_upload_band_def dest: band_of_children_Inl)
        with r have "r \<noteq> Inl (RuntimeError ''Could not acquire any antenna #2.'')"
          and "\<And>ok. r \<noteq> Inr ok" by simp_all
        moreover have "\<exists>k. calls w' = calls w4 @ [SetLteBand ul_bands, SetLteBand dl_bands]
                            @ replicate k ReadSignal"
          using w' calls8 calls7 by (intro exI[of _ "Suc n"]) (simp add: replicate_append_same)
        ultimately show ?thesis using test Inr True final Inl by auto
      next
        case (Inr b2)
        with True \<open>c = Inr c3\<close> tail final
        have r: "r = Inr (band_in b2 ul_bands)" and w': "w' = w8" by simp_all
        have "\<exists>k. calls w' = calls w4 @ [SetLteBand ul_bands, SetLteBand dl_bands]
                            @ replicate k ReadSignal"
          using w' calls8 calls7 by (intro exI[of _ "Suc n"]) (simp add: replicate_append_same)
        then show ?thesis using r w' test \<open>c = Inr c3\<close> True final Inr by auto
      qed
    qed
  qed
qed

theorem force_band_setting_reconfigures_witness:
  "acquire_antenna obedient_router (world0 (Some ''3''))
     = (Inr (), snd (acquire_antenna obedient_router (world0 (Some ''3''))))
   \<and> fst (get_upload_band obedient_router False
            (snd (acquire_antenna obedient_router (world0 (Some ''3''))))) = Inr (Some ''B3'')
   \<and> \<not> band_in (Some ''B3'') upload_bands
   \<and> (\<exists>n. calls (snd (force_band_setting obedient_router upload_bands download_bands
                        (world0 (Some ''3'')))) =
            calls (snd (get_upload_band obedient_router False
                     (snd (acquire_antenna obedient_router (world0 (Some ''3''))))))
            @ [SetLteBand upload_bands, SetLteBand download_bands] @ replicate n ReadSignal)"
proof -
  let ?w3 = "snd (acquire_antenna obedient_router (world0 (Some ''3'')))"
  let ?w4 = "snd (get_upload_band obedient_router False ?w3)"
  have h1: "length upload_bands \<le> 1"
    by (simp add: upload_bands_def)
  have h2: "acquire_antenna obedient_router (world0 (Some ''3'')) = (Inr (), ?w3)"
    by (simp add: acquire_antenna_def wait_for_connection_unfold wait_loop_unfold
        obedient_router_def world0_def band_doc_def connection_timeout_def now_def rci_def)
  have h3': "fst (get_upload_band obedient_router False ?w3) = Inr (Some ''B3'')"
    by (simp add: acquire_antenna_def wait_for_connection_unfold wait_loop_unfold
        obedient_router_def world0_def band_doc_def connection_timeout_def now_def rci_def)
  then have h3: "get_upload_band obedient_router False ?w3 = (Inr (Some ''B3''), ?w4)"
    by (simp add: prod_eq_iff)
  have h4: "\<not> band_in (Some ''B3'') upload_bands"
    by (simp add: band_in_def upload_bands_def)
  have h5: "force_band_setting obedient_router upload_bands download_bands (world0 (Some ''3''))
      = (fst (force_band_setting obedient_router upload_bands download_bands
                (world0 (Some ''3''))),
         snd (force_band_setting obedient_router upload_bands download_bands
                (world0 (Some ''3''))))"
    by simp
  from force_band_setting_reconfigures[OF h1 h2 h3 h4 h5]
  have "\<exists>n. calls (snd (force_band_setting obedient_router upload_bands download_bands
                        (world0 (Some ''3'')))) =
            calls ?w4 @ [SetLteBand upload_bands, SetLteBand download_bands]
            @ replicate n ReadSignal"
    by (rule conjunct1)
  with h2 h3' h4 show ?thesis by blast
qed

subsection \<open>The retry loop\<close>

lemma attempt_failure_logged:
  assumes "force_band_setting e upload_bands download_bands w = (r, w1)" and "r \<noteq> Inr True"
  shows "\<exists>m. attempt e w = logger e m w1"
proof (cases r)
  case (Inl x)
  with assms(1) show ?thesis
    by (auto simp: attempt_def handle_failure_def)
next
  case (Inr ok)
  with assms(2) have "\<not> ok" by simp
  with Inr assms(1) show ?thesis
    by (auto simp: attempt_def handle_failure_def)
qed

lemma main_loop_result:
  "main_loop e w = Some y \<Longrightarrow>
     \<exists>w0. snd (get_upload_band e False w0) = snd y \<and>
       (case fst y of
          Inr u \<Rightarrow> fst (get_upload_band e False w0) = Inr (Some (upload_bands ! 0))
        | Inl x \<Rightarrow> fst (get_upload_band e False w0) = Inl x)"
proof (induction e w y rule: main_loop.raw_induct[rotated 1, consumes 1, case_names body])
  case (body loop e w y)
  obtain q w1 where head: "get_upload_band e False w = (q, w1)"
    by (cases "get_upload_band e False w")
  show ?case
  proof (cases q)
    case (Inl x)
    with head body.hyps have "y = (Inl x, w1)" by simp
    with head Inl show ?thesis by (intro exI[of _ w]) simp
  next
    case (Inr b)
    show ?thesis
    proof (cases "b \<noteq> Some (upload_bands ! 0)")
      case False
      with head Inr body.hyps have "y = (Inr (), w1)" by simp
      with head Inr False show ?thesis by (intro exI[of _ w]) simp
    next
      case True
      obtain q' w2 where again: "get_upload_band e False w1 = (q', w2)"
        by (cases "get_upload_band e False w1")
      show ?thesis
      proof (cases q')
        case (Inl x)
        with head Inr True again body.hyps have "y = (Inl x, w2)" by simp
        with again Inl show ?thesis by (intro exI[of _ w1]) simp
      next
        case (Inr b')
        with head \<open>q = Inr b\<close> True again body.hyps
        have "\<exists>v. loop e v = Some y" by auto
        then obtain v where "loop e v = Some y" ..
        then show ?thesis by (rule body.IH)
      qed
    qed
  qed
qed

text \<open>
  C8. The loop of main retries without any cap. When force_band_setting ends in an
  exception (NoAntenna among them) or returns False (band mismatch), the attempt only
  appends a line to the log and the loop goes on: an iteration whose two telemetry reads
  give a band other than the desired one is followed by the loop started again after the
  attempt. The loop returns only when a telemetry read at the loop head has just given
  the desired upload band. It never ends in a failure that comes from the attempts: the
  only exception that leaves it is the RuntimeError for a telemetry document without a
  band entry, raised by a read at the loop head, outside the try statement. With a
  router that always answers with a band entry and never with the desired band, the
  loop runs forever.
\<close>

theorem main_loop_retries_until_band_matches:
  "(\<forall>v r v1. force_band_setting e upload_bands download_bands v = (r, v1) \<and> r \<noteq> Inr True \<longrightarrow>
        (\<exists>m. attempt e v = logger e m v1))
   \<and> (\<forall>b w1 b' w2. get_upload_band e False w = (Inr b, w1) \<and> b \<noteq> Some (upload_bands ! 0) \<and>
          get_upload_band e False w1 = (Inr b', w2) \<longrightarrow>
        main_loop e w =
          main_loop e (attempt e
            (logger e (''Router '' @ router_name @ '' is using '' @ str_opt b' @
               '' as upload band. Forcing '' @ upload_bands ! 0 @ '' instead.'') w2)))
   \<and> (\<forall>u w'. main_loop e w = Some (Inr u, w') \<longrightarrow>
        (\<exists>w0. get_upload_band e False w0 = (Inr (Some (upload_bands ! 0)), w')))
   \<and> (\<forall>x w'. main_loop e w = Some (Inl x, w') \<longrightarrow>
        x = RuntimeError ''No band entry in device signal.'' \<and>
        (\<exists>w0. get_upload_band e False w0 = (Inl x, w')))
   \<and> ((\<forall>d t. \<exists>b. band_of_children (signal e d t) False = Inr b \<and> b \<noteq> Some (upload_bands ! 0))
        \<longrightarrow> main_loop e w = None)"
proof (intro conjI allI impI)
  fix v r v1
  assume "force_band_setting e upload_bands download_bands v = (r, v1) \<and> r \<noteq> Inr True"
  then show "\<exists>m. attempt e v = logger e m v1"
    using attempt_failure_logged by blast
next
  fix b w1 b' w2
  assume "get_upload_band e False w = (Inr b, w1) \<and> b \<noteq> Some (upload_bands ! 0) \<and>
          get_upload_band e False w1 = (Inr b', w2)"
  then show "main_loop e w =
          main_loop e (attempt e
            (logger e (''Router '' @ router_name @ '' is using '' @ str_opt b' @
               '' as upload band. Forcing '' @ upload_bands ! 0 @ '' instead.'') w2))"
    by (subst main_loop.simps) simp
next
  fix u w'
  assume "main_loop e w = Some (Inr u, w')"
  from main_loop_result[OF this]
  show "\<exists>w0. get_upload_band e False w0 = (Inr (Some (upload_bands ! 0)), w')"
    by (auto simp: prod_eq_iff)
next
  fix x w'
  assume "main_loop e w = Some (Inl x, w')"
  from main_loop_result[OF this]
  obtain w0 where w0: "get_upload_band e False w0 = (Inl x, w')"
    by (auto simp: prod_eq_iff)
  then have "band_of_children (signal e (dev w0) (clock w0)) False = Inl x"
    by (simp add: get_upload_band_def)
  then show "x = RuntimeError ''No band entry in device signal.''"
    by (rule band_of_children_Inl)
  from w0 show "\<exists>w0. get_upload_band e False w0 = (Inl x, w')" ..
next
  assume never: "\<forall>d t. \<exists>b. band_of_children (signal e d t) False = Inr b
                    \<and> b \<noteq> Some (upload_bands ! 0)"
  show "main_loop e w = None"
  proof (rule ccontr)
    assume "main_loop e w \<noteq> None"
    then obtain y where "main_loop e w = Some y" by blast
    from main_loop_result[OF this]
    obtain w0 where "case fst y of
          Inr u \<Rightarrow> fst (get_upload_band e False w0) = Inr (Some (upload_bands ! 0))
        | Inl x \<Rightarrow> fst (get_upload_band e False w0) = Inl x"
      by blast
    moreover from never obtain b
      where "band_of_children (signal e (dev w0) (clock w0)) False = Inr b"
        and "b \<noteq> Some (upload_bands ! 0)"
      by blast
    ultimately show False
      by (simp split: sum.splits)
  qed
qed

theorem main_loop_retries_until_band_matches_witness:
  "main_loop (static_router (band_doc None)) (world0 ()) = None
   \<and> main_loop (static_router (band_doc (Some ''3''))) (world0 ()) = None
   \<and> (\<exists>w0. get_upload_band obedient_router False w0 =
         (Inr (Some (upload_bands ! 0)), rci obedient_router ReadSignal (world0 (Some ''28''))))
   \<and> (\<exists>w' w0. main_loop obedient_router (world0 (Some ''3'')) = Some (Inr (), w')
         \<and> control_calls (calls w') = [SetLteBand upload_bands, SetLteBand download_bands]
         \<and> get_upload_band obedient_router False w0 = (Inr (Some (upload_bands ! 0)), w'))"
proof -
  have dark: "\<forall>d t. \<exists>b. band_of_children (signal (static_router (band_doc None)) d t) False
                 = Inr b \<and> b \<noteq> Some (upload_bands ! 0)"
    by (simp add: static_router_def band_doc_def)
  have wrong: "\<forall>d t. \<exists>b. band_of_children (signal (static_router (band_doc (Some ''3''))) d t)
                 False = Inr b \<and> b \<noteq> Some (upload_bands ! 0)"
    by (simp add: static_router_def band_doc_def upload_bands_def)
  have stops: "main_loop obedient_router (world0 (Some ''28'')) =
                Some (Inr (), rci obedient_router ReadSignal (world0 (Some ''28'')))"
    by (subst main_loop.simps)
       (simp add: get_upload_band_def obedient_router_def world0_def band_doc_def
          upload_bands_def)
  from dark main_loop_retries_until_band_matches
         [of "static_router (band_doc None)" "world0 ()"]
  have "main_loop (static_router (band_doc None)) (world0 ()) = None"
    by blast
  moreover from wrong main_loop_retries_until_band_matches
         [of "static_router (band_doc (Some ''3''))" "world0 ()"]
  have "main_loop (static_router (band_doc (Some ''3''))) (world0 ()) = None"
    by blast
  moreover from stops main_loop_retries_until_band_matches
         [of obedient_router "world0 (Some ''28'')"]
  have "\<exists>w0. get_upload_band obedient_router False w0 =
         (Inr (Some (upload_bands ! 0)), rci obedient_router ReadSignal (world0 (Some ''28'')))"
    by blast
  moreover have "\<exists>w'. main_loop obedient_router (world0 (Some ''3'')) = Some (Inr (), w')
         \<and> control_calls (calls w') = [SetLteBand upload_bands, SetLteBand download_bands]"
    by (simp add: main_loop.simps attempt_def force_band_setting_def
        wait_for_connection_unfold wait_loop_unfold obedient_router_def world0_def
        band_doc_def connection_timeout_def upload_bands_def download_bands_def band_in_def
        now_def rci_def get_upload_band_def set_upload_bands_def control_calls_def
        logger_def router_name_def)
  then have "\<exists>w' w0. main_loop obedient_router (world0 (Some ''3'')) = Some (Inr (), w')
         \<and> control_calls (calls w') = [SetLteBand upload_bands, SetLteBand download_bands]
         \<and> get_upload_band obedient_router False w0 = (Inr (Some (upload_bands ! 0)), w')"
    using main_loop_retries_until_band_matches [of obedient_router "world0 (Some ''3'')"]
    by blast
  ultimately show ?thesis by blast
qed

text \<open>
  C1, as the code has it. The four conditions are reported as exceptions that differ
  pairwise, and from the generic Exception of the retry loop, when class and message are
  taken together. By class alone they do not: a timeout above 120 (ConfigError), a
  telemetry document without band entry (ParseError) and a router that never attaches
  (NoAntenna) all raise RuntimeError and differ in the message only, and more than one
  upload band (UnsupportedConfiguration) raises NotImplementedError, a subclass of
  RuntimeError. An except clause for RuntimeError catches all four, and the handler of
  the retry loop treats them alike; it does not catch the generic Exception.
\<close>

theorem error_kinds_by_message:
  "(120 < timeout \<longrightarrow>
      fst (wait_for_connection e timeout w) =
        Inl (RuntimeError (''Timeout value '' @ str_int timeout @ '' is too large.'')))
   \<and> (find (\<lambda>c. tag c = ''band'') (signal e (dev w) (clock w)) = None \<longrightarrow>
      fst (get_upload_band e numerical w) = Inl (RuntimeError ''No band entry in device signal.''))
   \<and> (1 < length ul_bands \<longrightarrow>
      fst (force_band_setting e ul_bands dl_bands w) = Inl NotImplementedError)
   \<and> (length ul_bands \<le> 1 \<and> (\<forall>d t. band_of_children (signal e d t) False = Inr None) \<and>
       tick e < 1000000 \<longrightarrow>
      fst (force_band_setting e ul_bands dl_bands w) =
        Inl (RuntimeError ''Could not acquire any antenna #1.''))
   \<and> distinct
        [RuntimeError (''Timeout value '' @ str_int timeout @ '' is too large.''),
         RuntimeError ''No band entry in device signal.'',
         NotImplementedError,
         RuntimeError ''Could not acquire any antenna #1.'',
         RuntimeError ''Could not acquire any antenna #2.'',
         Exception msg]
   \<and> class_of (RuntimeError m) = RuntimeError_class
   \<and> class_of NotImplementedError = NotImplementedError_class
   \<and> issubclass NotImplementedError_class RuntimeError_class
   \<and> caught_by (RuntimeError m) RuntimeError_class
   \<and> caught_by NotImplementedError RuntimeError_class
   \<and> \<not> caught_by (Exception msg) RuntimeError_class
   \<and> handle_failure e (RuntimeError m) w = handle_failure e NotImplementedError w
   \<and> handle_failure e (RuntimeError m) w = handle_failure e (RuntimeError m') w"
proof -
  have config: "120 < timeout \<longrightarrow>
      fst (wait_for_connection e timeout w) =
        Inl (RuntimeError (''Timeout value '' @ str_int timeout @ '' is too large.''))"
    by (simp add: wait_for_connection_unfold)
  have parse: "find (\<lambda>c. tag c = ''band'') (signal e (dev w) (clock w)) = None \<longrightarrow>
      fst (get_upload_band e numerical w) = Inl (RuntimeError ''No band entry in device signal.'')"
    by (simp add: band_of_children_find)
  have unsupported: "1 < length ul_bands \<longrightarrow>
      fst (force_band_setting e ul_bands dl_bands w) = Inl NotImplementedError"
    by (simp add: force_band_setting_def)
  have no_antenna: "length ul_bands \<le> 1 \<and>
       (\<forall>d t. band_of_children (signal e d t) False = Inr None) \<and> tick e < 1000000 \<longrightarrow>
      fst (force_band_setting e ul_bands dl_bands w) =
        Inl (RuntimeError ''Could not acquire any antenna #1.'')"
  proof
    assume a: "length ul_bands \<le> 1 \<and>
       (\<forall>d t. band_of_children (signal e d t) False = Inr None) \<and> tick e < 1000000"
    then have none: "\<And>d t. band_of_children (signal e d t) False = Inr None"
      and tick: "tick e < 1000000" by blast+
    from acquire_antenna_never_attached[OF none tick, of w]
    obtain w' where "acquire_antenna e w =
            (Inl (RuntimeError ''Could not acquire any antenna #1.''), w')"
      by blast
    with a show "fst (force_band_setting e ul_bands dl_bands w) =
        Inl (RuntimeError ''Could not acquire any antenna #1.'')"
      by (simp add: force_band_setting_split)
  qed
  have vals: "distinct
        [RuntimeError (''Timeout value '' @ str_int timeout @ '' is too large.''),
         RuntimeError ''No band entry in device signal.'',
         NotImplementedError,
         RuntimeError ''Could not acquire any antenna #1.'',
         RuntimeError ''Could not acquire any antenna #2.'',
         Exception msg]"
    by simp
  have classes: "class_of (RuntimeError m) = RuntimeError_class"
    "class_of NotImplementedError = NotImplementedError_class"
    "issubclass NotImplementedError_class RuntimeError_class"
    "caught_by (RuntimeError m) RuntimeError_class"
    "caught_by NotImplementedError RuntimeError_class"
    "\<not> caught_by (Exception msg) RuntimeError_class"
    by (simp_all add: caught_by_def issubclass_def)
  have handler: "handle_failure e (RuntimeError m) w = handle_failure e NotImplementedError w"
    "handle_failure e (RuntimeError m) w = handle_failure e (RuntimeError m') w"
    by (simp_all add: handle_failure_def caught_by_def issubclass_def)
  from config parse unsupported no_antenna vals classes handler show ?thesis
    by blast
qed

theorem error_kinds_by_message_witness:
  "fst (wait_for_connection (static_router (band_doc None)) 121 (world0 ()))
     = Inl (RuntimeError ''Timeout value 121 is too large.'')
   \<and> fst (get_upload_band (static_router []) False (world0 ()))
     = Inl (RuntimeError ''No band entry in device signal.'')
   \<and> fst (force_band_setting (static_router (band_doc None)) [''B28'', ''B3''] download_bands
          (world0 ()))
     = Inl NotImplementedError
   \<and> fst (force_band_setting (static_router (band_doc None)) upload_bands download_bands
          (world0 ()))
     = Inl (RuntimeError ''Could not acquire any antenna #1.'')"
proof -
  have h1: "(120::int) < 121" by simp
  have h2: "find (\<lambda>c. tag c = ''band'')
              (signal (static_router []) (dev (world0 ())) (clock (world0 ()))) = None"
    by (simp add: static_router_def)
  have h3: "1 < length [''B28'', ''B3'']" by simp
  have h4: "length upload_bands \<le> 1 \<and>
       (\<forall>d t. band_of_children (signal (static_router (band_doc None)) d t) False = Inr None) \<and>
       tick (static_router (band_doc None)) < 1000000"
    by (simp add: upload_bands_def static_router_def band_doc_def)
  from h1 error_kinds_by_message [of 121 "static_router (band_doc None)" "world0 ()"]
  have "fst (wait_for_connection (static_router (band_doc None)) 121 (world0 ()))
     = Inl (RuntimeError (''Timeout value '' @ str_int 121 @ '' is too large.''))"
    by blast
  then have c1: "fst (wait_for_connection (static_router (band_doc None)) 121 (world0 ()))
     = Inl (RuntimeError ''Timeout value 121 is too large.'')"
    by (simp add: str_int_def)
  from h2 error_kinds_by_message [of _ "static_router []" "world0 ()"]
  have c2: "fst (get_upload_band (static_router []) False (world0 ()))
     = Inl (RuntimeError ''No band entry in device signal.'')"
    by blast
  from h3 error_kinds_by_message
    [of _ "static_router (band_doc None)" "world0 ()" _ "[''B28'', ''B3'']"]
  have c3: "fst (force_band_setting (static_router (band_doc None)) [''B28'', ''B3'']
          download_bands (world0 ())) = Inl NotImplementedError"
    by blast
  from h4 error_kinds_by_message
    [of _ "static_router (band_doc None)" "world0 ()" _ upload_bands]
  have c4: "fst (force_band_setting (static_router (band_doc None)) upload_bands download_bands
          (world0 ())) = Inl (RuntimeError ''Could not acquire any antenna #1.'')"
    by blast
  from c1 c2 c3 c4 show ?thesis by blast
qed

text \<open>
  The claim C1 as stated fails: a caller that dispatches on the kind of the exception
  cannot tell a timeout above 120, a telemetry document without band entry and a router
  that never attaches apart. All three end in the class RuntimeError.
\<close>

theorem error_kinds_not_distinct_counterexample:
  "error_kind (wait_for_connection (static_router (band_doc None)) 121 (world0 ()))
     = Some RuntimeError_class
   \<and> error_kind (get_upload_band (static_router []) False (world0 ()))
     = Some RuntimeError_class
   \<and> error_kind (force_band_setting (static_router (band_doc None)) upload_bands
        download_bands (world0 ()))
     = Some RuntimeError_class"
proof -
  have "error_kind (wait_for_connection (static_router (band_doc None)) 121 (world0 ()))
     = Some RuntimeError_class"
    by (simp add: error_kind_def wait_for_connection_unfold)
  moreover have "error_kind (get_upload_band (static_router []) False (world0 ()))
     = Some RuntimeError_class"
    by (simp add: error_kind_def static_router_def)
  moreover have "error_kind (force_band_setting (static_router (band_doc None)) upload_bands
        download_bands (world0 ())) = Some RuntimeError_class"
  proof -
    have none: "\<And>d t. band_of_children (signal (static_router (band_doc None)) d t) False
                   = Inr None"
      by (simp add: static_router_def band_doc_def)
    have tick: "tick (static_router (band_doc None)) < 1000000"
      by (simp add: static_router_def)
    from acquire_antenna_never_attached[OF none tick, of "world0 ()"]
    obtain w' where "acquire_antenna (static_router (band_doc None)) (world0 ()) =
            (Inl (RuntimeError ''Could not acquire any antenna #1.''), w')"
      by blast
    then show ?thesis
      by (simp add: error_kind_def force_band_setting_split upload_bands_def)
  qed
  ultimately show ?thesis by blast
qed

end
